theory Spec2Isabelle
  imports Main
begin

section \<open>Values, column records and connections\<close>

text \<open>
  The layer wraps rows of a relational query builder (knex). A connection is either the
  object made by \<^verbatim>\<open>knex(...)\<close> or a transaction handle
  (\<^verbatim>\<open>type Connection = Knex | Knex.Transaction\<close>); it is identified by a name.
\<close>

datatype Connection = Knex string | Transaction string

text \<open>
  \<^verbatim>\<open>RowValue = unknown | number | boolean | string | Date\<close>: any JavaScript value.
  \<open>Raw\<close> is a raw SQL expression of the query builder (\<^verbatim>\<open>Knex.Raw\<close>), \<open>Conn\<close> a
  connection object, \<open>Function\<close> a built-in function (by its name) and
  \<open>ObjectPrototype\<close> the object \<^verbatim>\<open>Object.prototype\<close>. A number is an integer here;
  the arithmetic of the code, which is that of IEEE doubles, is exact on the safe
  integers (\<^verbatim>\<open>Number.isSafeInteger\<close>) as long as its result is a safe integer too.
\<close>

datatype Value =
    Undefined
  | Null
  | Boolean bool
  | Number int
  | String string
  | Date int
  | Raw string
  | Conn Connection
  | Function string
  | ObjectPrototype

text \<open>JavaScript truthiness, as used by \<^verbatim>\<open>value || this.initialConn\<close>.\<close>

fun truthy :: "Value \<Rightarrow> bool" where
  "truthy Undefined = False"
| "truthy Null = False"
| "truthy (Boolean b) = b"
| "truthy (Number n) = (n \<noteq> 0)"
| "truthy (String s) = (s \<noteq> [])"
| "truthy (Date d) = True"
| "truthy (Raw e) = True"
| "truthy (Conn c) = True"
| "truthy (Function f) = True"
| "truthy ObjectPrototype = True"

definition safe_integer :: "int \<Rightarrow> bool" where
  "safe_integer n = (- 9007199254740991 \<le> n \<and> n \<le> 9007199254740991)"

text \<open>
  \<^verbatim>\<open>interface RowData { [key: string]: RowValue }\<close>: a plain object with data
  properties, given by its own properties in the order of \<^verbatim>\<open>Object.keys\<close>. Its
  prototype is \<^verbatim>\<open>Object.prototype\<close>, whose properties it inherits.
\<close>

type_synonym RowData = "(string \<times> Value) list"

definition Object_keys :: "RowData \<Rightarrow> string list" where
  "Object_keys obj = map fst obj"

text \<open>The string-keyed properties of \<^verbatim>\<open>Object.prototype\<close>; \<^verbatim>\<open>__proto__\<close> is an accessor, which
  on a plain object reads as \<^verbatim>\<open>Object.prototype\<close> itself.\<close>

definition Object_prototype :: RowData where
  "Object_prototype =
     [(''constructor'', Function ''Object''),
      (''__defineGetter__'', Function ''__defineGetter__''),
      (''__defineSetter__'', Function ''__defineSetter__''),
      (''hasOwnProperty'', Function ''hasOwnProperty''),
      (''__lookupGetter__'', Function ''__lookupGetter__''),
      (''__lookupSetter__'', Function ''__lookupSetter__''),
      (''isPrototypeOf'', Function ''isPrototypeOf''),
      (''propertyIsEnumerable'', Function ''propertyIsEnumerable''),
      (''toString'', Function ''toString''),
      (''valueOf'', Function ''valueOf''),
      (''__proto__'', ObjectPrototype),
      (''toLocaleString'', Function ''toLocaleString'')]"

text \<open>
  \<^verbatim>\<open>obj[key]\<close>: the own property if there is one, else the inherited one, else
  \<^verbatim>\<open>undefined\<close>. An own property may also hold \<^verbatim>\<open>undefined\<close>.
\<close>

definition get_prop :: "RowData \<Rightarrow> string \<Rightarrow> Value" where
  "get_prop obj key =
     (case map_of obj key of
        Some v \<Rightarrow> v
      | None \<Rightarrow> (case map_of Object_prototype key of Some v \<Rightarrow> v | None \<Rightarrow> Undefined))"

text \<open>
  The order of own keys: array indices (canonical decimal strings below \<open>2^32 - 1\<close>) come
  first in ascending order, then the other keys in the order they were added.
\<close>

definition digit_of :: "char \<Rightarrow> nat option" where
  "digit_of c =
     map_of [(CHR ''0'', 0), (CHR ''1'', 1), (CHR ''2'', 2), (CHR ''3'', 3), (CHR ''4'', 4),
             (CHR ''5'', 5), (CHR ''6'', 6), (CHR ''7'', 7), (CHR ''8'', 8), (CHR ''9'', 9)] c"

fun decimal :: "string \<Rightarrow> nat \<Rightarrow> nat option" where
  "decimal [] acc = Some acc"
| "decimal (c # cs) acc =
     (case digit_of c of None \<Rightarrow> None | Some d \<Rightarrow> decimal cs (10 * acc + d))"

definition array_index :: "string \<Rightarrow> nat option" where
  "array_index s =
     (case s of
        [] \<Rightarrow> None
      | c # cs \<Rightarrow>
          if c = CHR ''0'' \<and> cs \<noteq> [] then None
          else (case decimal s 0 of
                  Some n \<Rightarrow> if n < 4294967295 then Some n else None
                | None \<Rightarrow> None))"

fun replace_own :: "RowData \<Rightarrow> string \<Rightarrow> Value \<Rightarrow> RowData" where
  "replace_own [] key v = []"
| "replace_own ((k, w) # obj) key v =
     (if k = key then (key, v) # obj else (k, w) # replace_own obj key v)"

fun insert_index :: "nat \<Rightarrow> string \<Rightarrow> Value \<Rightarrow> RowData \<Rightarrow> RowData" where
  "insert_index n key v [] = [(key, v)]"
| "insert_index n key v ((k, w) # obj) =
     (case array_index k of
        Some m \<Rightarrow> if m < n then (k, w) # insert_index n key v obj else (key, v) # (k, w) # obj
      | None \<Rightarrow> (key, v) # (k, w) # obj)"

text \<open>
  \<^verbatim>\<open>obj[key] = v\<close> on a plain object. An own property is overwritten in place. The
  inherited \<^verbatim>\<open>__proto__\<close> is an accessor: assigning to it makes no own property (a
  primitive value is ignored; \<^verbatim>\<open>null\<close> or an object would replace the prototype, after
  which the object is no plain object any more and its inherited properties are not the
  ones of this model). Any other key becomes a new own property, at its place in the key
  order.
\<close>

definition set_prop :: "RowData \<Rightarrow> string \<Rightarrow> Value \<Rightarrow> RowData" where
  "set_prop obj key v =
     (if key \<in> set (Object_keys obj) then replace_own obj key v
      else if key = ''__proto__'' then obj
      else (case array_index key of
              Some n \<Rightarrow> insert_index n key v obj
            | None \<Rightarrow> obj @ [(key, v)]))"

text \<open>
  \<^verbatim>\<open>Object.assign(target, source)\<close>: every own property of the source is written to the
  target, in order.
\<close>

fun Object_assign :: "RowData \<Rightarrow> RowData \<Rightarrow> RowData" where
  "Object_assign target [] = target"
| "Object_assign target ((k, v) # source) = Object_assign (set_prop target k v) source"

definition ID_COL :: string where
  "ID_COL = ''id''"

definition TIME_CREATED_COL :: string where
  "TIME_CREATED_COL = ''time_created''"

definition TIME_UPDATED_COL :: string where
  "TIME_UPDATED_COL = ''time_updated''"

definition TIME_DELETED_COL :: string where
  "TIME_DELETED_COL = ''time_deleted''"

definition DEFAULT_PAGINATION_LIMIT :: int where
  "DEFAULT_PAGINATION_LIMIT = 20"

section \<open>The query builder, as far as this layer drives it\<close>

text \<open>
  A query is what \<^verbatim>\<open>conn(tableName)\<close> returns, together with the builder calls made
  on it so far, oldest first. A where callback (\<^verbatim>\<open>QueryFunction\<close>) is handed to the
  builder, which turns it into one parenthesised condition; it is represented by the
  condition on a record that it denotes.
\<close>

type_synonym QueryFunction = "RowData \<Rightarrow> bool"

datatype Clause =
    Where QueryFunction
  | WhereObject RowData
  | WhereNull string
  | Limit int
  | Offset int
  | Count "string list"
  | Update RowData
  | Delete

record Query =
  connection_of :: Connection
  table :: string
  clauses :: "Clause list"

definition from_table :: "Connection \<Rightarrow> string \<Rightarrow> Query" where
  "from_table c name = \<lparr>connection_of = c, table = name, clauses = []\<rparr>"

definition chain :: "Clause \<Rightarrow> Query \<Rightarrow> Query" where
  "chain cl q = q\<lparr>clauses := clauses q @ [cl]\<rparr>"

text \<open>
  Errors raised by this layer and by what it calls. \<open>ColumnNotFound col tbl\<close> is
  \<^verbatim>\<open>new Error(`Column '${col}' does not exist for table ${tbl}`)\<close>, with the message
  below. \<open>TypeError\<close> is the runtime's error for a call of what is no function, a read
  of a property of \<^verbatim>\<open>undefined\<close> or a destructuring of \<^verbatim>\<open>undefined\<close>. \<open>QueryError\<close> is
  a rejection by the database. \<open>NegativeOffset\<close> and \<open>EmptyUpdate\<close> are the two errors
  of the query builder that this layer can provoke (\<^verbatim>\<open>A non-negative integer must be
  provided to offset.\<close> and \<^verbatim>\<open>Empty .update() call detected! ...\<close>).
\<close>

datatype Error =
    ColumnNotFound string string
  | TypeError
  | QueryError string
  | NegativeOffset
  | EmptyUpdate

definition message :: "string \<Rightarrow> string \<Rightarrow> string" where
  "message col tbl =
     ''Column '' @ [CHR 0x27] @ col @ [CHR 0x27] @ '' does not exist for table '' @ tbl"

text \<open>
  Two builder calls do more than record a clause. \<^verbatim>\<open>offset(n)\<close> throws at once when
  \<open>n\<close> is negative. \<^verbatim>\<open>update(values)\<close> copies the own properties of \<^verbatim>\<open>values\<close> into an
  object of its own, by assignment.
\<close>

definition builder_offset :: "int \<Rightarrow> Query \<Rightarrow> Error + Query" where
  "builder_offset n q = (if n < 0 then Inl NegativeOffset else Inr (chain (Offset n) q))"

definition builder_update :: "RowData \<Rightarrow> Query \<Rightarrow> Query" where
  "builder_update data q = chain (Update (Object_assign [] data)) q"

text \<open>
  Awaiting a query first compiles it, and then hands it to the database, which rejects
  it or resolves it; a select resolves to the array of its records, and what an update
  or a delete resolves to is not used by this layer. The builder refuses to compile an
  update in which no property holds a value other than \<^verbatim>\<open>undefined\<close>, and then nothing
  reaches the database. The database is a parameter of every operation that awaits a
  query.
\<close>

type_synonym Driver = "Query \<Rightarrow> Error + RowData list"

fun empty_update :: "Clause \<Rightarrow> bool" where
  "empty_update (Update obj) = list_all (\<lambda>p. snd p = Undefined) obj"
| "empty_update cl = False"

definition compile :: "Query \<Rightarrow> Error option" where
  "compile q = (if list_ex empty_update (clauses q) then Some EmptyUpdate else None)"

definition await :: "Driver \<Rightarrow> Query \<Rightarrow> Error + RowData list" where
  "await db q = (case compile q of Some e \<Rightarrow> Inl e | None \<Rightarrow> db q)"

section \<open>Options of the query helpers\<close>

record ConnectionOpts =
  conn :: Connection

text \<open>
  \<^verbatim>\<open>before\<close> is called by the helper with the query object and may change it in any
  way: it is a function on queries. An option left out is \<open>None\<close>. The option
  \<^verbatim>\<open>where\<close> is \<open>whereFn\<close> here.
\<close>

record SelectOpts = ConnectionOpts +
  tableName :: string
  whereFn :: "QueryFunction option"
  includeDeleted :: "bool option"
  includeDeletedCol :: "string option"
  before :: "(Query \<Rightarrow> Query) option"

record Pagination =
  page :: "int option"
  limit :: "int option"

record FindAllOpts = SelectOpts +
  pagination :: "Pagination option"

datatype CountBy = Column string | Columns "string list"

record CountAllOpts = SelectOpts +
  countBy :: "CountBy option"

section \<open>Row\<close>

record Row =
  initialConn :: Value
  primaryCols :: "string list"
  tableName :: string
  rowData :: RowData
  idCol :: string
  timeCreatedCol :: string
  timeUpdatedCol :: string
  timeDeletedCol :: string
  conn :: Value

text \<open>The constructor; an option left out is \<open>None\<close> and takes its default.\<close>

definition new_Row ::
  "Connection \<Rightarrow> string \<Rightarrow> RowData \<Rightarrow> string option \<Rightarrow> string option \<Rightarrow> string option \<Rightarrow>
   string option \<Rightarrow> string list option \<Rightarrow> Row" where
  "new_Row c tableName' rowData' idCol' timeCreatedCol' timeUpdatedCol' timeDeletedCol' primaryCols' =
     (let idc = (case idCol' of Some x \<Rightarrow> x | None \<Rightarrow> ID_COL) in
      \<lparr>initialConn = Conn c,
       primaryCols = (case primaryCols' of Some cols \<Rightarrow> cols | None \<Rightarrow> [idc]),
       tableName = tableName',
       rowData = rowData',
       idCol = idc,
       timeCreatedCol = (case timeCreatedCol' of Some x \<Rightarrow> x | None \<Rightarrow> TIME_CREATED_COL),
       timeUpdatedCol = (case timeUpdatedCol' of Some x \<Rightarrow> x | None \<Rightarrow> TIME_UPDATED_COL),
       timeDeletedCol = (case timeDeletedCol' of Some x \<Rightarrow> x | None \<Rightarrow> TIME_DELETED_COL),
       conn = Conn c\<rparr>)"

definition connection :: "Row \<Rightarrow> Value" where
  "connection r = conn r"

definition set_connection :: "Value \<Rightarrow> Row \<Rightarrow> Row" where
  "set_connection v r = r\<lparr>conn := (if truthy v then v else initialConn r)\<rparr>"

text \<open>\<^verbatim>\<open>typeof this.rowData[col] !== "undefined"\<close>\<close>

definition isColumn :: "Row \<Rightarrow> string \<Rightarrow> bool" where
  "isColumn r col = (get_prop (rowData r) col \<noteq> Undefined)"

definition getColumn :: "Row \<Rightarrow> string \<Rightarrow> Error + Value" where
  "getColumn r col =
     (if \<not> isColumn r col then Inl (ColumnNotFound col (tableName r))
      else Inr (get_prop (rowData r) col))"

definition timeDeleted :: "Row \<Rightarrow> Error + Value" where
  "timeDeleted r = getColumn r (timeDeletedCol r)"

text \<open>\<^verbatim>\<open>Boolean(this.timeDeleted)\<close>\<close>

definition isDeleted :: "Row \<Rightarrow> Error + bool" where
  "isDeleted r = (case timeDeleted r of Inl e \<Rightarrow> Inl e | Inr v \<Rightarrow> Inr (truthy v))"

text \<open>
  \<^verbatim>\<open>get primaryKey\<close>: the loop over \<^verbatim>\<open>primaryCols\<close>, with \<open>key\<close> the object built so
  far; the first column that is missing throws.
\<close>

fun primaryKey_loop :: "Row \<Rightarrow> string list \<Rightarrow> RowData \<Rightarrow> Error + RowData" where
  "primaryKey_loop r [] key = Inr key"
| "primaryKey_loop r (col # cols) key =
     (case getColumn r col of
        Inl e \<Rightarrow> Inl e
      | Inr v \<Rightarrow> primaryKey_loop r cols (set_prop key col v))"

definition primaryKey :: "Row \<Rightarrow> Error + RowData" where
  "primaryKey r = primaryKey_loop r (primaryCols r) []"

text \<open>
  \<^verbatim>\<open>this.connection(this.tableName).where(this.primaryKey)\<close>: the call of the connection
  comes first, and fails when the current connection is not a connection object.
\<close>

definition query :: "Row \<Rightarrow> Error + Query" where
  "query r =
     (case connection r of
        Conn c \<Rightarrow>
          (case primaryKey r of
             Inl e \<Rightarrow> Inl e
           | Inr key \<Rightarrow> Inr (chain (WhereObject key) (from_table c (tableName r))))
      | _ \<Rightarrow> Inl TypeError)"

text \<open>
  An asynchronous method of a row ends with a value or an error, leaves the row in some
  state, and has sent some queries to the database on the way (\<open>awaited\<close>, oldest first).
\<close>

record 'a Completion =
  outcome :: "Error + 'a"
  row_after :: Row
  awaited :: "Query list"

text \<open>The validation loop of \<^verbatim>\<open>setColumns\<close> over \<^verbatim>\<open>Object.keys(data)\<close>.\<close>

fun check_columns :: "Row \<Rightarrow> string list \<Rightarrow> Error + unit" where
  "check_columns r [] = Inr ()"
| "check_columns r (key # keys) =
     (if \<not> isColumn r key then Inl (ColumnNotFound key (tableName r))
      else check_columns r keys)"

text \<open>
  \<^verbatim>\<open>await this.query.update(data); Object.assign(this.rowData, data)\<close>: the query getter
  runs first, then the update is built, compiled and sent.
\<close>

definition setColumns :: "Driver \<Rightarrow> RowData \<Rightarrow> Row \<Rightarrow> unit Completion" where
  "setColumns db data r =
     (case check_columns r (Object_keys data) of
        Inl e \<Rightarrow> \<lparr>outcome = Inl e, row_after = r, awaited = []\<rparr>
      | Inr _ \<Rightarrow>
          (case query r of
             Inl e \<Rightarrow> \<lparr>outcome = Inl e, row_after = r, awaited = []\<rparr>
           | Inr q \<Rightarrow>
               (let u = builder_update data q in
                case compile u of
                  Some e \<Rightarrow> \<lparr>outcome = Inl e, row_after = r, awaited = []\<rparr>
                | None \<Rightarrow>
                    (case db u of
                       Inl e \<Rightarrow> \<lparr>outcome = Inl e, row_after = r, awaited = [u]\<rparr>
                     | Inr _ \<Rightarrow>
                         \<lparr>outcome = Inr (),
                          row_after = r\<lparr>rowData := Object_assign (rowData r) data\<rparr>,
                          awaited = [u]\<rparr>))))"

definition setColumn :: "Driver \<Rightarrow> string \<Rightarrow> Value \<Rightarrow> Row \<Rightarrow> unit Completion" where
  "setColumn db col v r = setColumns db [(col, v)] r"

text \<open>\<^verbatim>\<open>connection.fn.now()\<close>: the raw expression for the current time of the server.\<close>

definition fn_now :: "Connection \<Rightarrow> Value" where
  "fn_now c = Raw ''CURRENT_TIMESTAMP''"

text \<open>
  \<^verbatim>\<open>delete\<close>: the argument \<^verbatim>\<open>{ [this.timeDeletedCol]: this.connection.fn.now() }\<close> is
  evaluated before \<^verbatim>\<open>setColumns\<close> is entered.
\<close>

definition delete :: "Driver \<Rightarrow> Row \<Rightarrow> unit Completion" where
  "delete db r =
     (case connection r of
        Conn c \<Rightarrow> setColumns db [(timeDeletedCol r, fn_now c)] r
      | _ \<Rightarrow> \<lparr>outcome = Inl TypeError, row_after = r, awaited = []\<rparr>)"

definition restore :: "Driver \<Rightarrow> Row \<Rightarrow> unit Completion" where
  "restore db r = setColumns db [(timeDeletedCol r, Null)] r"

definition deletePermanently :: "Driver \<Rightarrow> Row \<Rightarrow> unit Completion" where
  "deletePermanently db r =
     (case query r of
        Inl e \<Rightarrow> \<lparr>outcome = Inl e, row_after = r, awaited = []\<rparr>
      | Inr q \<Rightarrow>
          (let d = chain Delete q in
           case compile d of
             Some e \<Rightarrow> \<lparr>outcome = Inl e, row_after = r, awaited = []\<rparr>
           | None \<Rightarrow>
               (case db d of
                  Inl e \<Rightarrow> \<lparr>outcome = Inl e, row_after = r, awaited = [d]\<rparr>
                | Inr _ \<Rightarrow> \<lparr>outcome = Inr (), row_after = r, awaited = [d]\<rparr>)))"

section \<open>Query helpers\<close>

text \<open>
  \<^verbatim>\<open>const { limit = DEFAULT_PAGINATION_LIMIT, page = 1 } = pagination\<close>, and the argument
  \<^verbatim>\<open>(page - 1) * limit\<close> of \<^verbatim>\<open>offset\<close>.
\<close>

definition limit_of :: "Pagination \<Rightarrow> int" where
  "limit_of p = (case limit p of Some n \<Rightarrow> n | None \<Rightarrow> DEFAULT_PAGINATION_LIMIT)"

definition page_of :: "Pagination \<Rightarrow> int" where
  "page_of p = (case page p of Some n \<Rightarrow> n | None \<Rightarrow> 1)"

definition offset_of :: "Pagination \<Rightarrow> int" where
  "offset_of p = (page_of p - 1) * limit_of p"

text \<open>
  \<^verbatim>\<open>findAll\<close> up to the \<^verbatim>\<open>before\<close> hook: the query after the helper's own builder
  calls, in the order of the source. The call of \<^verbatim>\<open>offset\<close> may throw, and then
  \<^verbatim>\<open>findAll\<close> ends there, before \<^verbatim>\<open>before\<close> is called and before anything is awaited.
\<close>

definition findAll_chain :: "FindAllOpts \<Rightarrow> Error + Query" where
  "findAll_chain opts =
     (let q0 = from_table (ConnectionOpts.conn opts) (SelectOpts.tableName opts);
          q1 = (case whereFn opts of Some w \<Rightarrow> chain (Where w) q0 | None \<Rightarrow> q0);
          q2 = (if \<not> (case includeDeleted opts of Some b \<Rightarrow> b | None \<Rightarrow> False)
                then chain (WhereNull (case includeDeletedCol opts of Some c \<Rightarrow> c
                                       | None \<Rightarrow> TIME_DELETED_COL)) q1
                else q1)
      in (case pagination opts of
            Some p \<Rightarrow> builder_offset (offset_of p) (chain (Limit (limit_of p)) q2)
          | None \<Rightarrow> Inr q2))"

text \<open>The query that \<^verbatim>\<open>findAll\<close> awaits: \<^verbatim>\<open>before\<close>, when given, has been called on it.\<close>

definition findAll_query :: "FindAllOpts \<Rightarrow> Error + Query" where
  "findAll_query opts =
     (case findAll_chain opts of
        Inl e \<Rightarrow> Inl e
      | Inr q \<Rightarrow> Inr (case before opts of Some b \<Rightarrow> b q | None \<Rightarrow> q))"

definition findAll :: "Driver \<Rightarrow> FindAllOpts \<Rightarrow> Error + Row list" where
  "findAll db opts =
     (case findAll_query opts of
        Inl e \<Rightarrow> Inl e
      | Inr q \<Rightarrow>
          (case await db q of
             Inl e \<Rightarrow> Inl e
           | Inr records \<Rightarrow>
               Inr (map (\<lambda>rowData'. new_Row (ConnectionOpts.conn opts) (SelectOpts.tableName opts)
                                     rowData' None None None None None) records)))"

text \<open>
  \<^verbatim>\<open>find\<close> (here \<open>find_row\<close>) takes \<^verbatim>\<open>SelectOpts\<close>, which has no \<^verbatim>\<open>pagination\<close>, and
  passes it on to \<^verbatim>\<open>findAll\<close>; \<^verbatim>\<open>const [result] = ...; return result ?? null\<close>.
\<close>

definition find_row :: "Driver \<Rightarrow> SelectOpts \<Rightarrow> Error + Row option" where
  "find_row db opts =
     (case findAll db (SelectOpts.extend opts (FindAllOpts.fields None)) of
        Inl e \<Rightarrow> Inl e
      | Inr [] \<Rightarrow> Inr None
      | Inr (result # _) \<Rightarrow> Inr (Some result))"

definition countAll_query :: "CountAllOpts \<Rightarrow> Query" where
  "countAll_query opts =
     (let q0 = from_table (ConnectionOpts.conn opts) (SelectOpts.tableName opts);
          q1 = (case whereFn opts of Some w \<Rightarrow> chain (Where w) q0 | None \<Rightarrow> q0);
          q2 = (if \<not> (case includeDeleted opts of Some b \<Rightarrow> b | None \<Rightarrow> False)
                then chain (WhereNull (case includeDeletedCol opts of Some c \<Rightarrow> c
                                       | None \<Rightarrow> TIME_DELETED_COL)) q1
                else q1)
      in chain (Count (case countBy opts of
                         None \<Rightarrow> [ID_COL]
                       | Some (Column c) \<Rightarrow> [c]
                       | Some (Columns cs) \<Rightarrow> cs)) q2)"

text \<open>\<^verbatim>\<open>const [{ count }] = await query\<close>: destructuring an empty result throws.\<close>

definition countAll :: "Driver \<Rightarrow> CountAllOpts \<Rightarrow> Error + Value" where
  "countAll db opts =
     (case await db (countAll_query opts) of
        Inl e \<Rightarrow> Inl e
      | Inr [] \<Rightarrow> Inl TypeError
      | Inr (first # _) \<Rightarrow> Inr (get_prop first ''count''))"

section \<open>Which records a query selects\<close>

text \<open>
  A record of a table has the columns of the table as its own properties. The where
  clauses of a query are conjoined; the other clauses do not filter. A record is selected
  when every clause holds of it.
\<close>

definition column :: "RowData \<Rightarrow> string \<Rightarrow> Value" where
  "column rec col = (case map_of rec col of Some v \<Rightarrow> v | None \<Rightarrow> Undefined)"

fun holds :: "Clause \<Rightarrow> RowData \<Rightarrow> bool" where
  "holds (Where p) rec = p rec"
| "holds (WhereObject key) rec = list_all (\<lambda>p. column rec (fst p) = snd p) key"
| "holds (WhereNull col) rec = (column rec col = Null)"
| "holds (Limit n) rec = True"
| "holds (Offset n) rec = True"
| "holds (Count cols) rec = True"
| "holds (Update data) rec = True"
| "holds Delete rec = True"

definition selected :: "RowData list \<Rightarrow> Query \<Rightarrow> RowData list" where
  "selected tbl q = filter (\<lambda>rec. list_all (\<lambda>cl. holds cl rec) (clauses q)) tbl"

text \<open>
  The builder call \<^verbatim>\<open>clearWhere()\<close>, which a \<^verbatim>\<open>before\<close> callback may make: it drops the
  where clauses chained so far.
\<close>

fun is_where :: "Clause \<Rightarrow> bool" where
  "is_where (Where p) = True"
| "is_where (WhereObject key) = True"
| "is_where (WhereNull col) = True"
| "is_where cl = False"

definition clearWhere :: "Query \<Rightarrow> Query" where
  "clearWhere q = q\<lparr>clauses := filter (\<lambda>cl. \<not> is_where cl) (clauses q)\<rparr>"

text \<open>
  A read-only database that holds one table in memory, as a reading of what the selects
  and counts of this layer ask for. It rejects an update or a delete, a query that names
  a column that a record of the table lacks, and a negative LIMIT or OFFSET. It answers a
  count of one column with one record, whose \<^verbatim>\<open>count\<close> is the number of selected
  records that are not \<^verbatim>\<open>NULL\<close> in that column, and rejects a count of no or several
  columns. It answers any other query with the selected records. The last OFFSET and
  LIMIT of the query cut the answer.
\<close>

fun last_limit :: "Clause list \<Rightarrow> int option" where
  "last_limit [] = None"
| "last_limit (Limit n # cls) = (case last_limit cls of None \<Rightarrow> Some n | Some m \<Rightarrow> Some m)"
| "last_limit (cl # cls) = last_limit cls"

fun last_offset :: "Clause list \<Rightarrow> int option" where
  "last_offset [] = None"
| "last_offset (Offset n # cls) = (case last_offset cls of None \<Rightarrow> Some n | Some m \<Rightarrow> Some m)"
| "last_offset (cl # cls) = last_offset cls"

fun last_count :: "Clause list \<Rightarrow> string list option" where
  "last_count [] = None"
| "last_count (Count cols # cls) =
     (case last_count cls of None \<Rightarrow> Some cols | Some later \<Rightarrow> Some later)"
| "last_count (cl # cls) = last_count cls"

fun is_write :: "Clause \<Rightarrow> bool" where
  "is_write (Update data) = True"
| "is_write Delete = True"
| "is_write cl = False"

definition known_column :: "RowData list \<Rightarrow> string \<Rightarrow> bool" where
  "known_column tbl col = list_all (\<lambda>rec. col \<in> set (Object_keys rec)) tbl"

fun known_columns :: "RowData list \<Rightarrow> Clause \<Rightarrow> bool" where
  "known_columns tbl (WhereObject key) = list_all (known_column tbl) (Object_keys key)"
| "known_columns tbl (WhereNull col) = known_column tbl col"
| "known_columns tbl (Count cols) = list_all (known_column tbl) cols"
| "known_columns tbl cl = True"

definition negative :: "int option \<Rightarrow> bool" where
  "negative n = (case n of Some m \<Rightarrow> m < 0 | None \<Rightarrow> False)"

definition cut :: "Clause list \<Rightarrow> RowData list \<Rightarrow> RowData list" where
  "cut cls recs =
     (let skipped = (case last_offset cls of Some n \<Rightarrow> drop (nat n) recs | None \<Rightarrow> recs)
      in case last_limit cls of Some n \<Rightarrow> take (nat n) skipped | None \<Rightarrow> skipped)"

definition in_memory :: "RowData list \<Rightarrow> Driver" where
  "in_memory tbl q =
     (if list_ex is_write (clauses q) then Inl (QueryError ''read-only database'')
      else if \<not> list_all (known_columns tbl) (clauses q) then Inl (QueryError ''unknown column'')
      else if negative (last_offset (clauses q)) \<or> negative (last_limit (clauses q))
      then Inl (QueryError ''syntax error'')
      else (case last_count (clauses q) of
              None \<Rightarrow> Inr (cut (clauses q) (selected tbl q))
            | Some [col] \<Rightarrow>
                Inr (cut (clauses q)
                       [[(''count'',
                          Number (int (length (filter (\<lambda>rec. column rec col \<noteq> Null)
                                                 (selected tbl q)))))]])
            | Some cols \<Rightarrow> Inl (QueryError ''syntax error'')))"

section \<open>Test data\<close>

text \<open>
  The row of the repository's unit tests, and databases that resolve or reject every
  query that reaches them.
\<close>

definition testConn :: Connection where
  "testConn = Knex ''mysql2''"

definition testRow :: Row where
  "testRow = new_Row testConn ''kansen''
     [(''id'', Number 252),
      (''time_created'', Date 536112000),
      (''time_updated'', Date 597542400),
      (''time_deleted'', Date 869529600),
      (''key'', String ''graf_zeppelin''),
      (''name'', String ''Graf Zeppelin''),
      (''score'', Number 40)]
     None None None None None"

definition resolving :: Driver where
  "resolving q = Inr []"

definition rejecting :: Driver where
  "rejecting q = Inl (QueryError ''connection lost'')"

text \<open>
  The table of the repository's tests: six records with scores 10, 20, 30, 40, 45, 55, here
  after the two with odd scores were soft-deleted.
\<close>

definition kansen_record :: "int \<Rightarrow> string \<Rightarrow> string \<Rightarrow> int \<Rightarrow> Value \<Rightarrow> RowData" where
  "kansen_record i k n s d =
     [(''id'', Number i), (''time_deleted'', d), (''key'', String k), (''name'', String n),
      (''score'', Number s)]"

definition kansenTable :: "RowData list" where
  "kansenTable =
     [kansen_record 1 ''karlsruhe'' ''Karlsruhe'' 10 Null,
      kansen_record 2 ''leipzig'' ''Leipzig'' 20 Null,
      kansen_record 3 ''z23'' ''Z23'' 30 Null,
      kansen_record 4 ''prinz_eugen'' ''Prinz Eugen'' 40 Null,
      kansen_record 5 ''odin'' ''Odin'' 45 (Date 1600000000),
      kansen_record 6 ''friedrich_der_grosse'' ''Friedrich der Grosse'' 55 (Date 1600000000)]"

text \<open>The where callback \<^verbatim>\<open>function () { this.where("score", ">=", n) }\<close>.\<close>

definition score_at_least :: "int \<Rightarrow> QueryFunction" where
  "score_at_least n rec = (case column rec ''score'' of Number s \<Rightarrow> n \<le> s | _ \<Rightarrow> False)"

text \<open>Options of a select on the table, with the where callback above.\<close>

definition kansenOpts :: SelectOpts where
  "kansenOpts =
     \<lparr>ConnectionOpts.conn = testConn, SelectOpts.tableName = ''kansen'',
      whereFn = Some (score_at_least 20), includeDeleted = None, includeDeletedCol = None,
      before = None\<rparr>"

definition kansenPageTwo :: FindAllOpts where
  "kansenPageTwo =
     SelectOpts.extend kansenOpts (FindAllOpts.fields (Some \<lparr>page = Some 2, limit = Some 2\<rparr>))"

definition kansenCount :: CountAllOpts where
  "kansenCount = SelectOpts.extend kansenOpts (CountAllOpts.fields None)"

text \<open>The same select with a \<^verbatim>\<open>before\<close> callback that calls \<^verbatim>\<open>query.clearWhere()\<close>.\<close>

definition kansenHook :: FindAllOpts where
  "kansenHook =
     SelectOpts.extend (kansenOpts\<lparr>before := Some clearWhere\<rparr>) (FindAllOpts.fields None)"

text \<open>The same select with \<^verbatim>\<open>pagination: { page: 0, limit: 2 }\<close>.\<close>

definition kansenPageZero :: FindAllOpts where
  "kansenPageZero =
     SelectOpts.extend kansenOpts (FindAllOpts.fields (Some \<lparr>page = Some 0, limit = Some 2\<rparr>))"

text \<open>
  Rows whose \<^verbatim>\<open>rowData\<close> has the deletion time but not the \<^verbatim>\<open>id\<close>, as after
  \<^verbatim>\<open>select("time_deleted")\<close>: one restored, one deleted.
\<close>

definition restoredNoId :: Row where
  "restoredNoId = new_Row testConn ''kansen'' [(''time_deleted'', Null)] None None None None None"

definition deletedNoId :: Row where
  "deletedNoId =
     new_Row testConn ''kansen'' [(''time_deleted'', Date 869529600)] None None None None None"

section \<open>Objects\<close>

lemma map_of_replace_own:
  "key \<in> set (map fst obj) \<Longrightarrow> map_of (replace_own obj key v) = (map_of obj)(key \<mapsto> v)"
  by (induction obj key v rule: replace_own.induct) (force simp: fun_upd_twist)+

lemma map_of_insert_index:
  "key \<notin> set (map fst obj) \<Longrightarrow> map_of (insert_index n key v obj) = (map_of obj)(key \<mapsto> v)"
  by (induction n key v obj rule: insert_index.induct)
     (auto simp: fun_upd_twist split: option.splits)

lemma map_of_append_new:
  "key \<notin> set (map fst obj) \<Longrightarrow> map_of (obj @ [(key, v)]) = (map_of obj)(key \<mapsto> v)"
  by (induction obj) (auto simp: fun_upd_twist)

lemma map_of_set_prop:
  assumes "key \<noteq> ''__proto__'' \<or> key \<in> set (Object_keys obj)"
  shows "map_of (set_prop obj key v) = (map_of obj)(key \<mapsto> v)"
proof (cases "key \<in> set (Object_keys obj)")
  case True
  then show ?thesis
    by (simp add: set_prop_def Object_keys_def map_of_replace_own)
next
  case False
  with assms have "key \<noteq> ''__proto__''" by simp
  with False show ?thesis
    using map_of_append_new [of key obj v]
    by (simp add: set_prop_def Object_keys_def map_of_insert_index split: option.splits)
qed

lemma get_prop_set_prop:
  assumes "key \<noteq> ''__proto__'' \<or> key \<in> set (Object_keys obj)"
  shows "get_prop (set_prop obj key v) k = (if k = key then v else get_prop obj k)"
  by (simp add: get_prop_def map_of_set_prop [OF assms])

lemma replace_own_same: "map_of obj key = Some v \<Longrightarrow> replace_own obj key v = obj"
  by (induction obj key v rule: replace_own.induct) (auto split: if_splits)

lemma set_prop_same: "map_of obj key = Some v \<Longrightarrow> set_prop obj key v = obj"
proof -
  assume own: "map_of obj key = Some v"
  then have "key \<in> set (Object_keys obj)"
    by (force simp: Object_keys_def dest: map_of_SomeD)
  with own show ?thesis
    by (simp add: set_prop_def replace_own_same)
qed

lemma set_prop_empty:
  "set_prop [] key v = (if key = ''__proto__'' then [] else [(key, v)])"
  by (simp add: set_prop_def Object_keys_def split: option.splits)

text \<open>What an object inherits is a function or the prototype object, never \<^verbatim>\<open>null\<close> or \<^verbatim>\<open>undefined\<close>.\<close>

lemma inherited_value:
  "map_of Object_prototype key = Some v \<Longrightarrow> v \<noteq> Undefined \<and> v \<noteq> Null"
  by (auto simp: Object_prototype_def split: if_splits)

lemma inherited_names:
  "map_of Object_prototype key \<noteq> None \<longleftrightarrow> key \<in> set (Object_keys Object_prototype)"
  by (simp add: Object_keys_def map_of_eq_None_iff)

lemma get_prop_Null: "get_prop obj key = Null \<Longrightarrow> map_of obj key = Some Null"
  by (auto simp: get_prop_def split: option.splits dest: inherited_value)

section \<open>Column access\<close>

text \<open>
  \<^verbatim>\<open>isColumn\<close> and \<^verbatim>\<open>getColumn\<close> in closed form: a name is taken for a column when
  \<^verbatim>\<open>rowData\<close> has it as an own property that does not hold \<^verbatim>\<open>undefined\<close>, and also
  when \<^verbatim>\<open>rowData\<close> does not have it and \<^verbatim>\<open>Object.prototype\<close> does.
\<close>

lemma isColumn_iff:
  "isColumn r col \<longleftrightarrow>
     (case map_of (rowData r) col of
        Some v \<Rightarrow> v \<noteq> Undefined
      | None \<Rightarrow> col \<in> set (Object_keys Object_prototype))"
proof (cases "map_of (rowData r) col")
  case None
  show ?thesis
  proof (cases "map_of Object_prototype col")
    case None
    with \<open>map_of (rowData r) col = None\<close> inherited_names [of col] show ?thesis
      by (simp add: isColumn_def get_prop_def)
  next
    case (Some v)
    with \<open>map_of (rowData r) col = None\<close> inherited_names [of col] inherited_value [of col v]
    show ?thesis
      by (simp add: isColumn_def get_prop_def)
  qed
next
  case (Some v)
  then show ?thesis by (simp add: isColumn_def get_prop_def)
qed

lemma getColumn_own:
  "map_of (rowData r) col = Some v \<Longrightarrow>
   getColumn r col = (if v = Undefined then Inl (ColumnNotFound col (tableName r)) else Inr v)"
  by (simp add: getColumn_def isColumn_def get_prop_def)

lemma getColumn_missing:
  "map_of (rowData r) col = None \<Longrightarrow> col \<notin> set (Object_keys Object_prototype) \<Longrightarrow>
   getColumn r col = Inl (ColumnNotFound col (tableName r))"
  by (simp add: getColumn_def isColumn_iff)

text \<open>
  C5. The claim is that \<^verbatim>\<open>isColumn(col)\<close> is true exactly when \<^verbatim>\<open>col\<close> is a key of
  \<^verbatim>\<open>rowData\<close> whose value is not \<^verbatim>\<open>undefined\<close>, and that \<^verbatim>\<open>getColumn(col)\<close> throws the
  column-not-found error otherwise; the documentation of \<^verbatim>\<open>isColumn\<close> says the same
  (\<^verbatim>\<open>true\<close> if the column name exists on row data, \<^verbatim>\<open>false\<close> otherwise). The code tests
  \<^verbatim>\<open>typeof this.rowData[col]\<close>, which also finds what \<^verbatim>\<open>rowData\<close> inherits. On the row of
  the unit tests, whose \<^verbatim>\<open>rowData\<close> has no key \<^verbatim>\<open>toString\<close>, \<^verbatim>\<open>constructor\<close> or
  \<^verbatim>\<open>__proto__\<close>: \<^verbatim>\<open>isColumn\<close> is true of each of them, and \<^verbatim>\<open>getColumn\<close> returns the
  inherited function or object instead of throwing. On the names that are keys of
  \<^verbatim>\<open>rowData\<close> or are neither keys nor inherited, the code does what the claim says:
  \<^verbatim>\<open>score\<close> is a column, a key holding \<^verbatim>\<open>null\<close> is a column, and \<^verbatim>\<open>status\<close> is none.
\<close>

theorem isColumn_inherited:
  "''toString'' \<notin> set (Object_keys (rowData testRow))
   \<and> isColumn testRow ''toString''
   \<and> getColumn testRow ''toString'' = Inr (Function ''toString'')
   \<and> ''constructor'' \<notin> set (Object_keys (rowData testRow))
   \<and> isColumn testRow ''constructor''
   \<and> getColumn testRow ''constructor'' = Inr (Function ''Object'')
   \<and> ''__proto__'' \<notin> set (Object_keys (rowData testRow))
   \<and> isColumn testRow ''__proto__''
   \<and> getColumn testRow ''__proto__'' = Inr ObjectPrototype
   \<and> isColumn testRow ''score''
   \<and> getColumn testRow ''score'' = Inr (Number 40)
   \<and> isColumn (testRow\<lparr>rowData := [(''id'', Number 1), (''time_deleted'', Null)]\<rparr>) ''time_deleted''
   \<and> \<not> isColumn testRow ''status''
   \<and> getColumn testRow ''status'' = Inl (ColumnNotFound ''status'' ''kansen'')
   \<and> message ''status'' ''kansen'' =
        ''Column '' @ [CHR 0x27] @ ''status'' @ [CHR 0x27] @ '' does not exist for table kansen''"
  by (simp add: testRow_def new_Row_def isColumn_def getColumn_def get_prop_def Object_keys_def
      Object_prototype_def message_def)

section \<open>The connection of a row\<close>

lemma fold_set_connection:
  "initialConn (fold set_connection vs r) = initialConn r
   \<and> connection (fold set_connection vs r) =
       (if vs = [] then connection r
        else if truthy (last vs) then last vs else initialConn r)"
  by (induction vs arbitrary: r) (auto simp: set_connection_def connection_def)

lemma setColumns_keeps_connection:
  "initialConn (row_after (setColumns db data r)) = initialConn r
   \<and> connection (row_after (setColumns db data r)) = connection r"
  by (simp add: setColumns_def connection_def Let_def split: sum.splits option.splits)

lemma methods_keep_connection:
  "initialConn (row_after (setColumn db col v r)) = initialConn r
   \<and> connection (row_after (setColumn db col v r)) = connection r
   \<and> initialConn (row_after (delete db r)) = initialConn r
   \<and> connection (row_after (delete db r)) = connection r
   \<and> initialConn (row_after (restore db r)) = initialConn r
   \<and> connection (row_after (restore db r)) = connection r
   \<and> initialConn (row_after (deletePermanently db r)) = initialConn r
   \<and> connection (row_after (deletePermanently db r)) = connection r"
proof -
  have "initialConn (row_after (delete db r)) = initialConn r
        \<and> connection (row_after (delete db r)) = connection r"
    by (cases "connection r") (simp_all add: delete_def setColumns_keeps_connection)
  moreover have "initialConn (row_after (deletePermanently db r)) = initialConn r
        \<and> connection (row_after (deletePermanently db r)) = connection r"
    by (simp add: deletePermanently_def Let_def split: sum.splits option.splits)
  ultimately show ?thesis
    by (simp add: setColumn_def restore_def setColumns_keeps_connection)
qed

text \<open>
  C6. Take a row as its constructor makes it, with connection \<open>c\<close>, and assign the values
  \<open>vs\<close> to its \<^verbatim>\<open>connection\<close> property, one after the other. Then \<^verbatim>\<open>initialConn\<close> is
  still \<open>c\<close>; the getter returns the last value assigned when that value is truthy, and
  \<open>c\<close> when it is falsy (or nothing was assigned); so what the getter returns is never
  falsy. In particular, assigning another connection \<open>c'\<close> and then \<^verbatim>\<open>null\<close> gives
  back \<open>c\<close>. The methods that write to the database (\<^verbatim>\<open>setColumns\<close>, \<^verbatim>\<open>setColumn\<close>,
  \<^verbatim>\<open>delete\<close>, \<^verbatim>\<open>restore\<close>, \<^verbatim>\<open>deletePermanently\<close>) change neither \<^verbatim>\<open>initialConn\<close> nor
  the current connection of a row \<open>r\<close>.
\<close>

theorem connection_falls_back_to_initialConn:
  "initialConn (fold set_connection vs (new_Row c tn rd ic tc tu td pc)) = Conn c
   \<and> connection (fold set_connection vs (new_Row c tn rd ic tc tu td pc)) =
       (if vs = [] then Conn c else if truthy (last vs) then last vs else Conn c)
   \<and> truthy (connection (fold set_connection vs (new_Row c tn rd ic tc tu td pc)))
   \<and> connection (set_connection Null (set_connection (Conn c') (new_Row c tn rd ic tc tu td pc)))
       = Conn c
   \<and> initialConn (row_after (setColumns db data r)) = initialConn r
   \<and> connection (row_after (setColumns db data r)) = connection r
   \<and> initialConn (row_after (setColumn db col v r)) = initialConn r
   \<and> connection (row_after (setColumn db col v r)) = connection r
   \<and> initialConn (row_after (delete db r)) = initialConn r
   \<and> connection (row_after (delete db r)) = connection r
   \<and> initialConn (row_after (restore db r)) = initialConn r
   \<and> connection (row_after (restore db r)) = connection r
   \<and> initialConn (row_after (deletePermanently db r)) = initialConn r
   \<and> connection (row_after (deletePermanently db r)) = connection r"
proof -
  let ?r = "new_Row c tn rd ic tc tu td pc"
  have init: "initialConn ?r = Conn c" "connection ?r = Conn c"
    by (simp_all add: new_Row_def connection_def Let_def)
  have "connection (set_connection Null (set_connection (Conn c') ?r)) = Conn c"
    using fold_set_connection [of "[Conn c', Null]" ?r] init by simp
  then have "initialConn (fold set_connection vs ?r) = Conn c
     \<and> connection (fold set_connection vs ?r) =
         (if vs = [] then Conn c else if truthy (last vs) then last vs else Conn c)
     \<and> truthy (connection (fold set_connection vs ?r))
     \<and> connection (set_connection Null (set_connection (Conn c') ?r)) = Conn c"
    using fold_set_connection [of vs ?r] init by auto
  then show ?thesis
    using setColumns_keeps_connection [of db data r] methods_keep_connection [of db col v r]
    by simp
qed

theorem connection_falls_back_to_initialConn_witness:
  "connection (fold set_connection [Conn (Transaction ''trx''), String [], Number 0, Undefined] testRow)
     = Conn (Knex ''mysql2'')
   \<and> connection (fold set_connection [Null, Conn (Transaction ''trx'')] testRow)
     = Conn (Transaction ''trx'')"
  using connection_falls_back_to_initialConn
          [of "[Conn (Transaction ''trx''), String [], Number 0, Undefined]" testConn "''kansen''"
              "rowData testRow" None None None None None _ resolving "[]" testRow "''id''" Null]
        connection_falls_back_to_initialConn
          [of "[Null, Conn (Transaction ''trx'')]" testConn "''kansen''"
              "rowData testRow" None None None None None _ resolving "[]" testRow "''id''" Null]
  by (simp add: testRow_def testConn_def new_Row_def)

section \<open>The primary key\<close>

text \<open>The loop of \<^verbatim>\<open>primaryKey\<close> in closed form.\<close>

lemma primaryKey_loop_find:
  "primaryKey_loop r cols key =
     (case List.find (\<lambda>col. \<not> isColumn r col) cols of
        Some col \<Rightarrow> Inl (ColumnNotFound col (tableName r))
      | None \<Rightarrow> Inr (Object_assign key (map (\<lambda>col. (col, get_prop (rowData r) col)) cols)))"
  by (induction cols arbitrary: key) (auto simp: getColumn_def split: option.splits)

text \<open>
  C8. The claim is that \<^verbatim>\<open>primaryKey\<close> has exactly the \<^verbatim>\<open>primaryCols\<close> as keys, with the
  values \<^verbatim>\<open>rowData\<close> holds for them, and fails with the column-not-found error when a
  primary column is not present in \<^verbatim>\<open>rowData\<close>; the documentation of \<^verbatim>\<open>primaryKey\<close>
  says that it returns a subset of row data whose key is in \<^verbatim>\<open>primaryCols\<close>. Each primary
  column is read with \<^verbatim>\<open>getColumn\<close>, and so with the test of \<^verbatim>\<open>isColumn\<close>, which takes
  what \<^verbatim>\<open>rowData\<close> inherits for a column. On the row data of the unit tests, which has
  neither \<^verbatim>\<open>constructor\<close> nor \<^verbatim>\<open>__proto__\<close>: with \<^verbatim>\<open>primaryCols: ["constructor"]\<close> the key
  is \<^verbatim>\<open>{constructor: Object}\<close>, which is no part of the row data, and with
  \<^verbatim>\<open>primaryCols: ["__proto__"]\<close> it is \<^verbatim>\<open>{}\<close>; neither call fails. With primary columns
  that are keys of \<^verbatim>\<open>rowData\<close>, or are neither keys nor inherited, the code does what the
  claim says: the default is \<^verbatim>\<open>[idCol]\<close>, \<^verbatim>\<open>["key", "score"]\<close> gives those two columns, and
  \<^verbatim>\<open>["key", "status", "nope"]\<close> fails at \<^verbatim>\<open>status\<close>.
\<close>

theorem primaryKey_inherited:
  "''constructor'' \<notin> set (Object_keys (rowData testRow))
   \<and> primaryKey (new_Row testConn ''kansen'' (rowData testRow) None None None None
                   (Some [''constructor''])) = Inr [(''constructor'', Function ''Object'')]
   \<and> ''__proto__'' \<notin> set (Object_keys (rowData testRow))
   \<and> primaryKey (new_Row testConn ''kansen'' (rowData testRow) None None None None
                   (Some [''__proto__''])) = Inr []
   \<and> primaryCols testRow = [''id'']
   \<and> primaryKey testRow = Inr [(''id'', Number 252)]
   \<and> primaryCols (new_Row testConn ''kansen'' (rowData testRow) (Some ''key'') None None None None)
       = [''key'']
   \<and> primaryKey (new_Row testConn ''kansen'' (rowData testRow) (Some ''key'') None None None None)
       = Inr [(''key'', String ''graf_zeppelin'')]
   \<and> primaryKey (new_Row testConn ''kansen'' (rowData testRow) None None None None
                   (Some [''key'', ''score'']))
       = Inr [(''key'', String ''graf_zeppelin''), (''score'', Number 40)]
   \<and> primaryKey (new_Row testConn ''kansen'' (rowData testRow) None None None None
                   (Some [''key'', ''status'', ''nope'']))
       = Inl (ColumnNotFound ''status'' ''kansen'')"
  by (simp add: testRow_def new_Row_def primaryKey_def isColumn_def getColumn_def get_prop_def
      set_prop_def array_index_def digit_of_def Object_keys_def Object_prototype_def ID_COL_def
      Let_def)

section \<open>Updating columns\<close>

lemma find_first:
  "xs = pre @ x # post \<Longrightarrow> \<forall>y \<in> set pre. \<not> P y \<Longrightarrow> P x \<Longrightarrow> List.find P xs = Some x"
  by (auto simp: find_Some_iff nth_append intro!: exI [of _ "length pre"])

lemma check_columns_find:
  "check_columns r keys =
     (case List.find (\<lambda>key. \<not> isColumn r key) keys of
        None \<Rightarrow> Inr ()
      | Some key \<Rightarrow> Inl (ColumnNotFound key (tableName r)))"
  by (induction keys) auto

lemma check_columns_ok: "check_columns r keys = Inr () \<longleftrightarrow> (\<forall>key \<in> set keys. isColumn r key)"
  by (induction keys) auto

lemma setColumns_invalid:
  "check_columns r (Object_keys data) = Inl e \<Longrightarrow>
   setColumns db data r = \<lparr>outcome = Inl e, row_after = r, awaited = []\<rparr>"
  by (simp add: setColumns_def)

lemma setColumns_no_query:
  "check_columns r (Object_keys data) = Inr () \<Longrightarrow> query r = Inl e \<Longrightarrow>
   setColumns db data r = \<lparr>outcome = Inl e, row_after = r, awaited = []\<rparr>"
  by (simp add: setColumns_def)

lemma setColumns_not_compiled:
  "check_columns r (Object_keys data) = Inr () \<Longrightarrow> query r = Inr q \<Longrightarrow>
   compile (builder_update data q) = Some e \<Longrightarrow>
   setColumns db data r = \<lparr>outcome = Inl e, row_after = r, awaited = []\<rparr>"
  by (simp add: setColumns_def Let_def)

lemma setColumns_update:
  "check_columns r (Object_keys data) = Inr () \<Longrightarrow> query r = Inr q \<Longrightarrow>
   compile (builder_update data q) = None \<Longrightarrow>
   setColumns db data r =
     (case db (builder_update data q) of
        Inl e \<Rightarrow> \<lparr>outcome = Inl e, row_after = r, awaited = [builder_update data q]\<rparr>
      | Inr res \<Rightarrow> \<lparr>outcome = Inr (), row_after = r\<lparr>rowData := Object_assign (rowData r) data\<rparr>,
                    awaited = [builder_update data q]\<rparr>)"
  by (simp add: setColumns_def Let_def split: sum.splits)

lemma query_Inr:
  "query r = Inr q \<longleftrightarrow>
     (\<exists>c key. connection r = Conn c \<and> primaryKey r = Inr key
        \<and> q = \<lparr>connection_of = c, table = tableName r, clauses = [WhereObject key]\<rparr>)"
  by (auto simp: query_def chain_def from_table_def split: Value.splits sum.splits)

lemma builder_update_single:
  "k \<noteq> ''__proto__'' \<Longrightarrow>
   builder_update [(k, v)] \<lparr>connection_of = c, table = t, clauses = [WhereObject key]\<rparr> =
     \<lparr>connection_of = c, table = t, clauses = [WhereObject key, Update [(k, v)]]\<rparr>"
  by (simp add: builder_update_def chain_def set_prop_empty)

lemma compile_single:
  "compile (builder_update [(k, v)] \<lparr>connection_of = c, table = t, clauses = [WhereObject key]\<rparr>) =
     (if k = ''__proto__'' \<or> v = Undefined then Some EmptyUpdate else None)"
  by (simp add: compile_def builder_update_def chain_def set_prop_empty)

text \<open>What a call with all keys valid does, and what follows from a call that succeeded.\<close>

lemma setColumns_single:
  assumes "isColumn r k" and "connection r = Conn c" and "primaryKey r = Inr key"
    and "k \<noteq> ''__proto__''" and "v \<noteq> Undefined"
  shows "setColumns db [(k, v)] r =
     (case db \<lparr>connection_of = c, table = tableName r,
               clauses = [WhereObject key, Update [(k, v)]]\<rparr> of
        Inl e \<Rightarrow> \<lparr>outcome = Inl e, row_after = r,
                  awaited = [\<lparr>connection_of = c, table = tableName r,
                              clauses = [WhereObject key, Update [(k, v)]]\<rparr>]\<rparr>
      | Inr res \<Rightarrow> \<lparr>outcome = Inr (), row_after = r\<lparr>rowData := set_prop (rowData r) k v\<rparr>,
                    awaited = [\<lparr>connection_of = c, table = tableName r,
                                clauses = [WhereObject key, Update [(k, v)]]\<rparr>]\<rparr>)"
proof -
  let ?q = "\<lparr>connection_of = c, table = tableName r, clauses = [WhereObject key]\<rparr>"
  have ok: "check_columns r (Object_keys [(k, v)]) = Inr ()"
    using assms(1) by (simp add: Object_keys_def)
  have q: "query r = Inr ?q"
    using assms(2,3) by (simp add: query_Inr)
  have c: "compile (builder_update [(k, v)] ?q) = None"
    using assms(4,5) by (simp add: compile_single)
  show ?thesis
    using assms(4)
    by (simp add: setColumns_update [OF ok q c] builder_update_single split: sum.splits)
qed

lemma setColumns_succeeded:
  assumes "outcome (setColumns db data r) = Inr ()"
  shows "\<exists>q res. check_columns r (Object_keys data) = Inr () \<and> query r = Inr q
           \<and> compile (builder_update data q) = None \<and> db (builder_update data q) = Inr res
           \<and> setColumns db data r =
               \<lparr>outcome = Inr (), row_after = r\<lparr>rowData := Object_assign (rowData r) data\<rparr>,
                awaited = [builder_update data q]\<rparr>"
proof -
  from assms have ok: "check_columns r (Object_keys data) = Inr ()"
    by (cases "check_columns r (Object_keys data)") (auto simp: setColumns_invalid)
  with assms obtain q where q: "query r = Inr q"
    by (cases "query r") (auto simp: setColumns_no_query)
  from assms have c: "compile (builder_update data q) = None"
    by (cases "compile (builder_update data q)") (auto simp: setColumns_not_compiled [OF ok q])
  from assms obtain res where res: "db (builder_update data q) = Inr res"
    by (cases "db (builder_update data q)") (auto simp: setColumns_update [OF ok q c])
  then have "setColumns db data r =
      \<lparr>outcome = Inr (), row_after = r\<lparr>rowData := Object_assign (rowData r) data\<rparr>,
       awaited = [builder_update data q]\<rparr>"
    by (simp add: setColumns_update [OF ok q c])
  with ok q c res show ?thesis by blast
qed

lemma setColumns_failed:
  assumes "outcome (setColumns db data r) \<noteq> Inr ()"
  shows "row_after (setColumns db data r) = r"
  using assms by (simp add: setColumns_def Let_def split: sum.splits option.splits)

text \<open>
  \<^verbatim>\<open>setColumns\<close> in terms of \<^verbatim>\<open>isColumn\<close>: the first key that \<^verbatim>\<open>isColumn\<close> refuses ends the
  call with the column-not-found error for it, with nothing sent and the row unchanged;
  whatever was sent is one update, scoped by the primary key, after every key had passed
  \<^verbatim>\<open>isColumn\<close>; a call that succeeds has merged \<^verbatim>\<open>data\<close> into \<^verbatim>\<open>rowData\<close>, and a call that
  fails has left the row as it was.
\<close>

lemma setColumns_validates:
  "(\<forall>pre key post.
      Object_keys data = pre @ key # post \<and> (\<forall>k \<in> set pre. isColumn r k) \<and> \<not> isColumn r key \<longrightarrow>
      setColumns db data r =
        \<lparr>outcome = Inl (ColumnNotFound key (tableName r)), row_after = r, awaited = []\<rparr>)
   \<and> (awaited (setColumns db data r) \<noteq> [] \<longrightarrow>
        (\<forall>k \<in> set (Object_keys data). isColumn r k)
        \<and> (\<exists>c key. connection r = Conn c \<and> primaryKey r = Inr key
              \<and> awaited (setColumns db data r) =
                  [builder_update data
                     \<lparr>connection_of = c, table = tableName r, clauses = [WhereObject key]\<rparr>]))
   \<and> (outcome (setColumns db data r) = Inr () \<longrightarrow>
        row_after (setColumns db data r) = r\<lparr>rowData := Object_assign (rowData r) data\<rparr>)
   \<and> (outcome (setColumns db data r) \<noteq> Inr () \<longrightarrow> row_after (setColumns db data r) = r)"
proof -
  let ?res = "setColumns db data r"
  have invalid: "?res = \<lparr>outcome = Inl (ColumnNotFound key (tableName r)), row_after = r, awaited = []\<rparr>"
    if "Object_keys data = pre @ key # post \<and> (\<forall>k \<in> set pre. isColumn r k) \<and> \<not> isColumn r key"
    for pre key post
  proof -
    have "List.find (\<lambda>key. \<not> isColumn r key) (Object_keys data) = Some key"
      using that by (intro find_first [of _ pre key post]) auto
    then have "check_columns r (Object_keys data) = Inl (ColumnNotFound key (tableName r))"
      by (simp add: check_columns_find)
    then show ?thesis by (rule setColumns_invalid)
  qed
  have issued: "(\<forall>k \<in> set (Object_keys data). isColumn r k)
        \<and> (\<exists>c key. connection r = Conn c \<and> primaryKey r = Inr key
              \<and> awaited ?res =
                  [builder_update data
                     \<lparr>connection_of = c, table = tableName r, clauses = [WhereObject key]\<rparr>])"
    if sent: "awaited ?res \<noteq> []"
  proof -
    from sent have ok: "check_columns r (Object_keys data) = Inr ()"
      by (cases "check_columns r (Object_keys data)") (auto simp: setColumns_invalid)
    with sent obtain q where q: "query r = Inr q"
      by (cases "query r") (auto simp: setColumns_no_query)
    from sent have c: "compile (builder_update data q) = None"
      by (cases "compile (builder_update data q)") (auto simp: setColumns_not_compiled [OF ok q])
    from q obtain c' key where ck: "connection r = Conn c'" "primaryKey r = Inr key"
      "q = \<lparr>connection_of = c', table = tableName r, clauses = [WhereObject key]\<rparr>"
      by (auto simp: query_Inr)
    have "awaited ?res = [builder_update data q]"
      by (simp add: setColumns_update [OF ok q c] split: sum.splits)
    with ck ok show ?thesis
      by (auto simp: check_columns_ok)
  qed
  have merged: "row_after ?res = r\<lparr>rowData := Object_assign (rowData r) data\<rparr>"
    if "outcome ?res = Inr ()"
    using setColumns_succeeded [OF that] by auto
  show ?thesis
    using invalid issued merged setColumns_failed [of db data r] by blast
qed

text \<open>
  C2. The claim is that a key of \<^verbatim>\<open>data\<close> that is not a column of \<^verbatim>\<open>rowData\<close> makes
  \<^verbatim>\<open>setColumns\<close> fail with the column-not-found error, with no write issued and
  \<^verbatim>\<open>rowData\<close> unchanged; the documentation of \<^verbatim>\<open>setColumns\<close> asks for an object whose keys
  are a subset of the row data keys. The keys are validated with \<^verbatim>\<open>isColumn\<close>, which
  takes what \<^verbatim>\<open>rowData\<close> inherits for a column. On the row of the unit tests, whose
  \<^verbatim>\<open>rowData\<close> has no key \<^verbatim>\<open>toString\<close>, \<^verbatim>\<open>setColumns({toString: "x"})\<close> passes the validation
  and sends the update of \<^verbatim>\<open>toString\<close> to the database, whether the database then
  resolves it or rejects it; when it is resolved, the call succeeds and \<^verbatim>\<open>rowData\<close> has the
  new key \<^verbatim>\<open>toString\<close>. With a key that \<^verbatim>\<open>rowData\<close> neither has nor inherits, the code does
  what the claim says: \<^verbatim>\<open>{key: "z23", status: "ok", nope: null}\<close> fails at \<^verbatim>\<open>status\<close> with
  nothing sent, and \<^verbatim>\<open>{key: "z23", score: 41}\<close> sends one update scoped by the primary key
  and is merged.
\<close>

theorem setColumns_inherited:
  "''toString'' \<notin> set (Object_keys (rowData testRow))
   \<and> setColumns resolving [(''toString'', String ''x'')] testRow =
       \<lparr>outcome = Inr (),
        row_after = testRow\<lparr>rowData := rowData testRow @ [(''toString'', String ''x'')]\<rparr>,
        awaited = [\<lparr>connection_of = Knex ''mysql2'', table = ''kansen'',
                    clauses = [WhereObject [(''id'', Number 252)],
                               Update [(''toString'', String ''x'')]]\<rparr>]\<rparr>
   \<and> setColumns rejecting [(''toString'', String ''x'')] testRow =
       \<lparr>outcome = Inl (QueryError ''connection lost''),
        row_after = testRow,
        awaited = [\<lparr>connection_of = Knex ''mysql2'', table = ''kansen'',
                    clauses = [WhereObject [(''id'', Number 252)],
                               Update [(''toString'', String ''x'')]]\<rparr>]\<rparr>
   \<and> setColumns resolving [(''key'', String ''z23''), (''status'', String ''ok''), (''nope'', Null)]
         testRow =
       \<lparr>outcome = Inl (ColumnNotFound ''status'' ''kansen''), row_after = testRow, awaited = []\<rparr>
   \<and> setColumns resolving [(''key'', String ''z23''), (''score'', Number 41)] testRow =
       \<lparr>outcome = Inr (),
        row_after = testRow\<lparr>rowData :=
          [(''id'', Number 252),
           (''time_created'', Date 536112000),
           (''time_updated'', Date 597542400),
           (''time_deleted'', Date 869529600),
           (''key'', String ''z23''),
           (''name'', String ''Graf Zeppelin''),
           (''score'', Number 41)]\<rparr>,
        awaited = [\<lparr>connection_of = Knex ''mysql2'', table = ''kansen'',
                    clauses = [WhereObject [(''id'', Number 252)],
                               Update [(''key'', String ''z23''), (''score'', Number 41)]]\<rparr>]\<rparr>"
  by (simp add: setColumns_def testRow_def testConn_def new_Row_def query_def primaryKey_def
      isColumn_def getColumn_def get_prop_def set_prop_def array_index_def digit_of_def
      Object_keys_def Object_prototype_def builder_update_def compile_def chain_def
      from_table_def connection_def ID_COL_def Let_def resolving_def rejecting_def)

text \<open>
  C4. For every row, column name \<open>k\<close> and value \<open>v\<close>: after \<^verbatim>\<open>setColumns({k: v})\<close> (or
  \<^verbatim>\<open>setColumn(k, v)\<close>, which is the same call) has completed successfully, \<^verbatim>\<open>getColumn(k)\<close>
  returns \<open>v\<close>. \<^verbatim>\<open>getColumn\<close> reads the row only (it takes no database), and the row
  after the call is the row before it with \<^verbatim>\<open>rowData[k] = v\<close>; the call has sent one query,
  its update. (The call does not succeed with \<^verbatim>\<open>undefined\<close> for \<open>v\<close>: the update is then
  empty and is refused when it is compiled.)
\<close>

theorem setColumns_then_getColumn:
  assumes "outcome (setColumns db [(k, v)] r) = Inr ()"
  shows "getColumn (row_after (setColumns db [(k, v)] r)) k = Inr v
    \<and> get_prop (rowData (row_after (setColumns db [(k, v)] r))) k = v
    \<and> row_after (setColumns db [(k, v)] r) = r\<lparr>rowData := set_prop (rowData r) k v\<rparr>
    \<and> length (awaited (setColumns db [(k, v)] r)) = 1
    \<and> setColumn db k v r = setColumns db [(k, v)] r"
proof -
  from setColumns_succeeded [OF assms] obtain q where q: "query r = Inr q"
    and c: "compile (builder_update [(k, v)] q) = None"
    and eq: "setColumns db [(k, v)] r =
        \<lparr>outcome = Inr (), row_after = r\<lparr>rowData := Object_assign (rowData r) [(k, v)]\<rparr>,
         awaited = [builder_update [(k, v)] q]\<rparr>"
    by blast
  from q obtain c' key where "q = \<lparr>connection_of = c', table = tableName r, clauses = [WhereObject key]\<rparr>"
    by (auto simp: query_Inr)
  with c have kv: "k \<noteq> ''__proto__''" "v \<noteq> Undefined"
    by (auto simp: compile_single split: if_splits)
  have stored: "get_prop (set_prop (rowData r) k v) k = v"
    using kv(1) by (simp add: get_prop_set_prop)
  show ?thesis
    using stored kv(2) by (simp add: eq getColumn_def isColumn_def setColumn_def)
qed

theorem setColumns_then_getColumn_witness:
  "outcome (setColumns resolving [(''score'', Number 41)] testRow) = Inr ()
   \<and> getColumn (row_after (setColumns resolving [(''score'', Number 41)] testRow)) ''score''
       = Inr (Number 41)
   \<and> outcome (setColumns resolving [(''time_deleted'', Null)] testRow) = Inr ()
   \<and> getColumn (row_after (setColumns resolving [(''time_deleted'', Null)] testRow)) ''time_deleted''
       = Inr Null
   \<and> outcome (setColumns resolving [(''toString'', String ''x'')] testRow) = Inr ()
   \<and> getColumn (row_after (setColumns resolving [(''toString'', String ''x'')] testRow)) ''toString''
       = Inr (String ''x'')
   \<and> setColumns resolving [(''name'', Undefined)] testRow =
       \<lparr>outcome = Inl EmptyUpdate, row_after = testRow, awaited = []\<rparr>"
proof -
  note defs = setColumns_def testRow_def testConn_def new_Row_def query_def primaryKey_def
    isColumn_def getColumn_def get_prop_def set_prop_def array_index_def digit_of_def
    Object_keys_def Object_prototype_def builder_update_def compile_def chain_def
    from_table_def connection_def ID_COL_def Let_def resolving_def
  have a: "outcome (setColumns resolving [(''score'', Number 41)] testRow) = Inr ()"
    and b: "outcome (setColumns resolving [(''time_deleted'', Null)] testRow) = Inr ()"
    and c: "outcome (setColumns resolving [(''toString'', String ''x'')] testRow) = Inr ()"
    and d: "setColumns resolving [(''name'', Undefined)] testRow =
       \<lparr>outcome = Inl EmptyUpdate, row_after = testRow, awaited = []\<rparr>"
    by (simp_all add: defs)
  have 1: "getColumn (row_after (setColumns resolving [(''score'', Number 41)] testRow)) ''score''
       = Inr (Number 41)"
    using setColumns_then_getColumn [OF a] by blast
  have 2: "getColumn (row_after (setColumns resolving [(''time_deleted'', Null)] testRow))
       ''time_deleted'' = Inr Null"
    using setColumns_then_getColumn [OF b] by blast
  have 3: "getColumn (row_after (setColumns resolving [(''toString'', String ''x'')] testRow))
       ''toString'' = Inr (String ''x'')"
    using setColumns_then_getColumn [OF c] by blast
  show ?thesis
    using 1 2 3 a b c d by blast
qed

section \<open>Soft delete\<close>





section \<open>Building and running a select\<close>

lemma extend_fields [simp]:
  "ConnectionOpts.conn (SelectOpts.extend opts (FindAllOpts.fields p)) = ConnectionOpts.conn opts"
  "SelectOpts.tableName (SelectOpts.extend opts (FindAllOpts.fields p)) = SelectOpts.tableName opts"
  "whereFn (SelectOpts.extend opts (FindAllOpts.fields p)) = whereFn opts"
  "includeDeleted (SelectOpts.extend opts (FindAllOpts.fields p)) = includeDeleted opts"
  "includeDeletedCol (SelectOpts.extend opts (FindAllOpts.fields p)) = includeDeletedCol opts"
  "before (SelectOpts.extend opts (FindAllOpts.fields p)) = before opts"
  "pagination (SelectOpts.extend opts (FindAllOpts.fields p)) = p"
  by (simp_all add: SelectOpts.extend_def FindAllOpts.fields_def FindAllOpts.defs)

text \<open>The builder calls of \<^verbatim>\<open>findAll\<close> and \<^verbatim>\<open>countAll\<close> in closed form.\<close>

lemma findAll_chain_closed:
  "findAll_chain opts =
     (if (case pagination opts of Some p \<Rightarrow> offset_of p < 0 | None \<Rightarrow> False) then Inl NegativeOffset
      else Inr \<lparr>connection_of = ConnectionOpts.conn opts, table = SelectOpts.tableName opts,
                clauses =
                  (case whereFn opts of Some w \<Rightarrow> [Where w] | None \<Rightarrow> [])
                  @ (if includeDeleted opts = Some True then []
                     else [WhereNull (case includeDeletedCol opts of Some col \<Rightarrow> col
                                      | None \<Rightarrow> ''time_deleted'')])
                  @ (case pagination opts of
                       None \<Rightarrow> []
                     | Some p \<Rightarrow> [Limit (limit_of p), Offset (offset_of p)])\<rparr>)"
  by (simp add: findAll_chain_def Let_def chain_def from_table_def builder_offset_def
      TIME_DELETED_COL_def split: option.splits)

lemma countAll_query_closed:
  "countAll_query opts =
     \<lparr>connection_of = ConnectionOpts.conn opts, table = SelectOpts.tableName opts,
      clauses =
        (case whereFn opts of Some w \<Rightarrow> [Where w] | None \<Rightarrow> [])
        @ (if includeDeleted opts = Some True then []
           else [WhereNull (case includeDeletedCol opts of Some col \<Rightarrow> col | None \<Rightarrow> ''time_deleted'')])
        @ [Count (case countBy opts of None \<Rightarrow> [''id''] | Some (Column c) \<Rightarrow> [c]
                  | Some (Columns cs) \<Rightarrow> cs)]\<rparr>"
  by (simp add: countAll_query_def Let_def chain_def from_table_def TIME_DELETED_COL_def
      ID_COL_def split: option.splits CountBy.splits)

section \<open>Finding one row\<close>

text \<open>
  C7. \<^verbatim>\<open>find(opts)\<close> calls \<^verbatim>\<open>findAll\<close> with the same options and no pagination. It returns
  the first row of what \<^verbatim>\<open>findAll\<close> returns when that is not empty, \<^verbatim>\<open>null\<close> when it is
  empty, and fails as \<^verbatim>\<open>findAll\<close> fails.
\<close>

theorem find_is_first_of_findAll:
  "(\<forall>row rest. findAll db (SelectOpts.extend opts (FindAllOpts.fields None)) = Inr (row # rest) \<longrightarrow>
      find_row db opts = Inr (Some row))
   \<and> (findAll db (SelectOpts.extend opts (FindAllOpts.fields None)) = Inr [] \<longrightarrow>
        find_row db opts = Inr None)
   \<and> (\<forall>e. findAll db (SelectOpts.extend opts (FindAllOpts.fields None)) = Inl e \<longrightarrow>
        find_row db opts = Inl e)
   \<and> SelectOpts.extend opts (FindAllOpts.fields None) =
       \<lparr>ConnectionOpts.conn = ConnectionOpts.conn opts, SelectOpts.tableName = SelectOpts.tableName opts,
        whereFn = whereFn opts, includeDeleted = includeDeleted opts,
        includeDeletedCol = includeDeletedCol opts, before = before opts, pagination = None\<rparr>"
  by (simp add: find_row_def SelectOpts.extend_def FindAllOpts.fields_def FindAllOpts.defs)

theorem find_is_first_of_findAll_witness:
  "findAll (in_memory kansenTable) (SelectOpts.extend kansenOpts (FindAllOpts.fields None)) =
     Inr [new_Row testConn ''kansen'' (kansen_record 2 ''leipzig'' ''Leipzig'' 20 Null)
            None None None None None,
          new_Row testConn ''kansen'' (kansen_record 3 ''z23'' ''Z23'' 30 Null)
            None None None None None,
          new_Row testConn ''kansen'' (kansen_record 4 ''prinz_eugen'' ''Prinz Eugen'' 40 Null)
            None None None None None]
   \<and> find_row (in_memory kansenTable) kansenOpts =
       Inr (Some (new_Row testConn ''kansen'' (kansen_record 2 ''leipzig'' ''Leipzig'' 20 Null)
                    None None None None None))
   \<and> findAll (in_memory []) (SelectOpts.extend kansenOpts (FindAllOpts.fields None)) = Inr []
   \<and> find_row (in_memory []) kansenOpts = Inr None
   \<and> findAll rejecting (SelectOpts.extend kansenOpts (FindAllOpts.fields None)) =
       Inl (QueryError ''connection lost'')
   \<and> find_row rejecting kansenOpts = Inl (QueryError ''connection lost'')"
proof -
  let ?o = "SelectOpts.extend kansenOpts (FindAllOpts.fields None)"
  have q: "findAll_query ?o =
      Inr \<lparr>connection_of = testConn, table = ''kansen'',
           clauses = [Where (score_at_least 20), WhereNull ''time_deleted'']\<rparr>"
    by (simp add: findAll_query_def findAll_chain_closed kansenOpts_def)
  note run = findAll_def q await_def compile_def in_memory_def cut_def negative_def
    known_column_def Object_keys_def selected_def column_def Let_def
  have all: "findAll (in_memory kansenTable) ?o =
     Inr [new_Row testConn ''kansen'' (kansen_record 2 ''leipzig'' ''Leipzig'' 20 Null)
            None None None None None,
          new_Row testConn ''kansen'' (kansen_record 3 ''z23'' ''Z23'' 30 Null)
            None None None None None,
          new_Row testConn ''kansen'' (kansen_record 4 ''prinz_eugen'' ''Prinz Eugen'' 40 Null)
            None None None None None]"
    by (simp add: run kansenTable_def kansen_record_def score_at_least_def)
       (simp add: kansenOpts_def)
  have none: "findAll (in_memory []) ?o = Inr []"
    by (simp add: run)
  have rej: "findAll rejecting ?o = Inl (QueryError ''connection lost'')"
    by (simp add: findAll_def q await_def compile_def rejecting_def)
  have 1: "find_row (in_memory kansenTable) kansenOpts =
       Inr (Some (new_Row testConn ''kansen'' (kansen_record 2 ''leipzig'' ''Leipzig'' 20 Null)
                    None None None None None))"
    using find_is_first_of_findAll [of "in_memory kansenTable" kansenOpts] all by blast
  have 2: "find_row (in_memory []) kansenOpts = Inr None"
    using find_is_first_of_findAll [of "in_memory []" kansenOpts] none by blast
  have 3: "find_row rejecting kansenOpts = Inl (QueryError ''connection lost'')"
    using find_is_first_of_findAll [of rejecting kansenOpts] rej by blast
  show ?thesis
    using all none rej 1 2 3 by blast
qed

end
